theory Spec2Isabelle
  imports Complex_Main "HOL-Library.Word" "HOL-Library.Multiset" "HOL-Library.Sublist"
begin

section \<open>JavaScript strings and JSON values\<close>

text \<open>
  A JavaScript string is a sequence of 16-bit code units. The message literals of
  \<^verbatim>\<open>App.js\<close> are ASCII and are written through \<open>js\<close>; the weather symbols are
  given by the code units of the string literals as they stand in the source file.
\<close>

type_synonym jsstring = "16 word list"

definition js :: "string \<Rightarrow> jsstring" where
  "js s = map of_char s"

text \<open>
  The values \<^verbatim>\<open>Response.json()\<close> can produce, plus \<^verbatim>\<open>undefined\<close>, which reading a
  missing property yields. A number is the real it denotes: the program only tests numbers
  against zero, prints them and passes them on. An object is the list of its own
  properties.
\<close>

datatype jsval =
    JUndefined
  | JNull
  | JBool bool
  | JNum real
  | JStr jsstring
  | JArr "jsval list"
  | JObj "(jsstring \<times> jsval) list"

text \<open>ToBoolean, as used by \<^verbatim>\<open>!x\<close> and \<^verbatim>\<open>x ? a : b\<close>.\<close>

fun truthy :: "jsval \<Rightarrow> bool" where
  "truthy JUndefined = False"
| "truthy JNull = False"
| "truthy (JBool b) = b"
| "truthy (JNum x) = (x \<noteq> 0)"
| "truthy (JStr s) = (s \<noteq> [])"
| "truthy (JArr xs) = True"
| "truthy (JObj ps) = True"

text \<open>
  \<^verbatim>\<open>String.prototype.trim\<close> removes the WhiteSpace and LineTerminator code units of
  ECMAScript from both ends.
\<close>

definition isWhiteSpace :: "16 word \<Rightarrow> bool" where
  "isWhiteSpace c \<longleftrightarrow>
     c \<in> set [0x9, 0xA, 0xB, 0xC, 0xD, 0x20, 0xA0, 0x1680, 0x2028, 0x2029,
              0x202F, 0x205F, 0x3000, 0xFEFF]
     \<or> (0x2000 \<le> c \<and> c \<le> 0x200A)"

definition trim :: "jsstring \<Rightarrow> jsstring" where
  "trim s = rev (dropWhile isWhiteSpace (rev (dropWhile isWhiteSpace s)))"

text \<open>
  \<^verbatim>\<open>encodeURIComponent\<close> throws a URIError exactly when its argument holds a surrogate
  code unit that is not part of a pair.
\<close>

fun well_formed_utf16 :: "jsstring \<Rightarrow> bool" where
  "well_formed_utf16 [] = True"
| "well_formed_utf16 [c] = (\<not> (0xD800 \<le> c \<and> c \<le> 0xDFFF))"
| "well_formed_utf16 (c # d # cs) =
     (if 0xD800 \<le> c \<and> c \<le> 0xDBFF
      then 0xDC00 \<le> d \<and> d \<le> 0xDFFF \<and> well_formed_utf16 cs
      else \<not> (0xDC00 \<le> c \<and> c \<le> 0xDFFF) \<and> well_formed_utf16 (d # cs))"


section \<open>Lookup classifier\<close>

text \<open>
  The classifier is modelled on integer codes, the weather codes of the data model. The
  object literal \<^verbatim>\<open>map\<close> of \<^verbatim>\<open>weatherCodeToText\<close> has for keys the canonical decimal
  numerals of the listed integers, so for an integer code \<^verbatim>\<open>map[code]\<close> finds an entry
  exactly when the code equals a listed integer; \<^verbatim>\<open>??\<close> then supplies \<^verbatim>\<open>"Unknown"\<close>. On
  integers, \<^verbatim>\<open>===\<close> and \<^verbatim>\<open>includes\<close> are equality and list membership.
\<close>

definition weather_text_map :: "(int \<times> jsstring) list" where
  "weather_text_map =
    [(0, js ''Clear sky''),
     (1, js ''Mainly clear''),
     (2, js ''Partly cloudy''),
     (3, js ''Overcast''),
     (45, js ''Fog''),
     (48, js ''Depositing rime fog''),
     (51, js ''Light drizzle''),
     (53, js ''Moderate drizzle''),
     (55, js ''Dense drizzle''),
     (56, js ''Freezing drizzle''),
     (57, js ''Dense freezing drizzle''),
     (61, js ''Slight rain''),
     (63, js ''Moderate rain''),
     (65, js ''Heavy rain''),
     (66, js ''Freezing rain''),
     (67, js ''Heavy freezing rain''),
     (71, js ''Light snow''),
     (73, js ''Moderate snow''),
     (75, js ''Heavy snow''),
     (77, js ''Snow grains''),
     (80, js ''Slight rain showers''),
     (81, js ''Moderate rain showers''),
     (82, js ''Violent rain showers''),
     (85, js ''Slight snow showers''),
     (86, js ''Heavy snow showers''),
     (95, js ''Thunderstorm''),
     (96, js ''Thunderstorm with slight hail''),
     (99, js ''Thunderstorm with heavy hail'')]"

definition weatherCodeToText :: "int \<Rightarrow> jsstring" where
  "weatherCodeToText code =
     (case map_of weather_text_map code of Some text \<Rightarrow> text | None \<Rightarrow> js ''Unknown'')"

text \<open>The nine string literals returned by \<^verbatim>\<open>weatherCodeToEmoji\<close>, in source order.\<close>

definition symbol_clear :: jsstring where
  "symbol_clear = [0x201A, 0xF2, 0xC4, 0xD4, 0x220F, 0xE8]"

definition symbol_partly_cloudy :: jsstring where
  "symbol_partly_cloudy = [0xF8FF, 0xFC, 0xE5, 0xA7, 0xD4, 0x220F, 0xE8]"

definition symbol_overcast :: jsstring where
  "symbol_overcast = [0x201A, 0xF2, 0xC5, 0xD4, 0x220F, 0xE8]"

definition symbol_fog :: jsstring where
  "symbol_fog = [0xF8FF, 0xFC, 0xE5, 0xB4, 0xD4, 0x220F, 0xE8]"

definition symbol_rain :: jsstring where
  "symbol_rain = [0xF8FF, 0xFC, 0xE5, 0xDF, 0xD4, 0x220F, 0xE8]"

definition symbol_freezing_rain :: jsstring where
  "symbol_freezing_rain =
     [0xF8FF, 0xFC, 0xDF, 0xE4, 0xF8FF, 0xFC, 0xE5, 0xDF, 0xD4, 0x220F, 0xE8]"

definition symbol_snow :: jsstring where
  "symbol_snow = [0x201A, 0xF9, 0xD1, 0xD4, 0x220F, 0xE8]"

definition symbol_thunderstorm :: jsstring where
  "symbol_thunderstorm = [0x201A, 0xF5, 0xE0, 0xD4, 0x220F, 0xE8]"

definition symbol_default :: jsstring where
  "symbol_default = [0xF8FF, 0xFC, 0xEE, 0xDC]"

definition weatherCodeToEmoji :: "int \<Rightarrow> jsstring" where
  "weatherCodeToEmoji code =
     (if code = 0 then symbol_clear
      else if code \<in> set [1, 2] then symbol_partly_cloudy
      else if code = 3 then symbol_overcast
      else if code \<in> set [45, 48] then symbol_fog
      else if code \<in> set [51, 53, 55, 61, 63, 65, 80, 81, 82] then symbol_rain
      else if code \<in> set [56, 57, 66, 67] then symbol_freezing_rain
      else if code \<in> set [71, 73, 75, 77, 85, 86] then symbol_snow
      else if code \<in> set [95, 96, 99] then symbol_thunderstorm
      else symbol_default)"

text \<open>
  The same rules as data: each membership test of \<^verbatim>\<open>weatherCodeToEmoji\<close> with the symbol
  it returns, in source order, and the evaluation of any such rule list by first match.
\<close>

definition emoji_rules :: "(int list \<times> jsstring) list" where
  "emoji_rules =
    [([0], symbol_clear),
     ([1, 2], symbol_partly_cloudy),
     ([3], symbol_overcast),
     ([45, 48], symbol_fog),
     ([51, 53, 55, 61, 63, 65, 80, 81, 82], symbol_rain),
     ([56, 57, 66, 67], symbol_freezing_rain),
     ([71, 73, 75, 77, 85, 86], symbol_snow),
     ([95, 96, 99], symbol_thunderstorm)]"

fun first_match :: "(int list \<times> jsstring) list \<Rightarrow> int \<Rightarrow> jsstring" where
  "first_match [] code = symbol_default"
| "first_match ((codes, symbol) # rules) code =
     (if code \<in> set codes then symbol else first_match rules code)"

definition matching_rules :: "(int list \<times> jsstring) list \<Rightarrow> int \<Rightarrow> (int list \<times> jsstring) list" where
  "matching_rules rules code = filter (\<lambda>rule. code \<in> set (fst rule)) rules"


section \<open>Application state and the outside world\<close>

text \<open>
  The object passed to \<^verbatim>\<open>setWeather\<close> and the four \<^verbatim>\<open>useState\<close> cells of \<^verbatim>\<open>App\<close>;
  \<^verbatim>\<open>null\<close> is \<open>None\<close>.
\<close>

record weather_info =
  cityName :: jsstring
  latitude :: jsval
  longitude :: jsval
  current :: jsval

record app_state =
  city :: jsstring
  weather :: "weather_info option"
  loading :: bool
  error :: "jsstring option"

definition initial_state :: app_state where
  "initial_state = \<lparr>city = [], weather = None, loading = False, error = None\<rparr>"

text \<open>
  The two URLs the program fetches, kept as the values interpolated into them: the city
  name of the geocoding search (\<^verbatim>\<open>count=1\<close>), and the latitude and longitude of the
  forecast request (\<^verbatim>\<open>current_weather=true\<close>, \<^verbatim>\<open>timezone=auto\<close>). A request is issued only
  when its URL can be built from them.
\<close>

datatype request =
    GeocodingRequest jsstring
  | ForecastRequest jsval jsval

text \<open>
  How an awaited promise settles: never, rejected with an error whose \<^verbatim>\<open>message\<close> is
  given, or fulfilled. A response offers its \<^verbatim>\<open>ok\<close> flag and the promise of \<^verbatim>\<open>json()\<close>.
\<close>

datatype 'a promise =
    Pending
  | Rejected jsstring
  | Fulfilled 'a

record response =
  ok :: bool
  json :: "jsval promise"

text \<open>
  What the program does not determine: the network's answer to each request and four
  texts chosen by the JavaScript engine (the text of a number, the message of the
  TypeError raised by reading the named property of the given value, \<^verbatim>\<open>null\<close> or
  \<^verbatim>\<open>undefined\<close>, the message of the TypeError raised when an object cannot be converted to
  a primitive value, and the message of the URIError of \<^verbatim>\<open>encodeURIComponent\<close>).
\<close>

record world =
  fetch :: "request \<Rightarrow> response promise"
  number_text :: "real \<Rightarrow> jsstring"
  type_error_text :: "jsval \<Rightarrow> jsstring \<Rightarrow> jsstring"
  conversion_error_text :: jsstring
  uri_error_text :: jsstring

text \<open>The observable effects, in the order the program performs them.\<close>

datatype event =
    PreventDefault
  | SetCity jsstring
  | SetLoading bool
  | SetError "jsstring option"
  | SetWeather "weather_info option"
  | Fetch request

fun apply_event :: "event \<Rightarrow> app_state \<Rightarrow> app_state" where
  "apply_event PreventDefault s = s"
| "apply_event (SetCity text) s = s\<lparr>city := text\<rparr>"
| "apply_event (SetLoading b) s = s\<lparr>loading := b\<rparr>"
| "apply_event (SetError e) s = s\<lparr>error := e\<rparr>"
| "apply_event (SetWeather w) s = s\<lparr>weather := w\<rparr>"
| "apply_event (Fetch r) s = s"

definition run_events :: "event list \<Rightarrow> app_state \<Rightarrow> app_state" where
  "run_events evs s = fold apply_event evs s"

definition requests :: "event list \<Rightarrow> request list" where
  "requests evs = concat (map (\<lambda>ev. case ev of Fetch r \<Rightarrow> [r] | _ \<Rightarrow> []) evs)"

text \<open>
  Reading a property. \<open>member\<close> is \<^verbatim>\<open>v.k\<close> for the names the program reads
  (\<^verbatim>\<open>results\<close>, \<^verbatim>\<open>latitude\<close>, \<^verbatim>\<open>longitude\<close>, \<^verbatim>\<open>name\<close>, \<^verbatim>\<open>country\<close>, \<^verbatim>\<open>admin1\<close>,
  \<^verbatim>\<open>current_weather\<close>), which only an object's own properties can define;
  \<open>length_member\<close> is \<^verbatim>\<open>v.length\<close> and \<open>first_element\<close> is \<^verbatim>\<open>v[0]\<close>. Each throws a
  TypeError (\<open>Inl\<close> its message) on \<^verbatim>\<open>null\<close> and \<^verbatim>\<open>undefined\<close>; \<open>field\<close> is the
  read once the value is known to be neither.
\<close>

definition own_property :: "(jsstring \<times> jsval) list \<Rightarrow> jsstring \<Rightarrow> jsval" where
  "own_property ps k = (case map_of ps k of Some v \<Rightarrow> v | None \<Rightarrow> JUndefined)"

definition nullish :: "jsval \<Rightarrow> bool" where
  "nullish v \<longleftrightarrow> v = JUndefined \<or> v = JNull"

fun field :: "jsval \<Rightarrow> jsstring \<Rightarrow> jsval" where
  "field (JObj ps) k = own_property ps k"
| "field v k = JUndefined"

definition member :: "world \<Rightarrow> jsval \<Rightarrow> jsstring \<Rightarrow> jsstring + jsval" where
  "member w v k = (if nullish v then Inl (type_error_text w v k) else Inr (field v k))"

fun length_member :: "world \<Rightarrow> jsval \<Rightarrow> jsstring + jsval" where
  "length_member w JUndefined = Inl (type_error_text w JUndefined (js ''length''))"
| "length_member w JNull = Inl (type_error_text w JNull (js ''length''))"
| "length_member w (JArr xs) = Inr (JNum (of_nat (length xs)))"
| "length_member w (JStr s) = Inr (JNum (of_nat (length s)))"
| "length_member w (JObj ps) = Inr (own_property ps (js ''length''))"
| "length_member w v = Inr JUndefined"

fun first_element :: "world \<Rightarrow> jsval \<Rightarrow> jsstring + jsval" where
  "first_element w JUndefined = Inl (type_error_text w JUndefined (js ''0''))"
| "first_element w JNull = Inl (type_error_text w JNull (js ''0''))"
| "first_element w (JArr xs) = Inr (case xs of [] \<Rightarrow> JUndefined | x # _ \<Rightarrow> x)"
| "first_element w (JStr s) = Inr (case s of [] \<Rightarrow> JUndefined | c # _ \<Rightarrow> JStr [c])"
| "first_element w (JObj ps) = Inr (own_property ps (js ''0''))"
| "first_element w v = Inr JUndefined"

text \<open>
  ToString, as applied by a template literal and by \<^verbatim>\<open>+\<close> with a string operand; \<open>Inl\<close>
  is the message of a thrown TypeError. A parsed object has no callable property of its
  own, so an object with an own \<^verbatim>\<open>toString\<close> key cannot be converted (neither that value nor
  \<^verbatim>\<open>valueOf\<close> yields a primitive); every other object is converted by
  \<^verbatim>\<open>Object.prototype.toString\<close>. An array is converted by \<^verbatim>\<open>Array.prototype.join\<close> with the
  default separator, which converts the elements in order and takes \<^verbatim>\<open>null\<close> and
  \<^verbatim>\<open>undefined\<close> as the empty string.
\<close>

fun join_texts :: "(jsstring + jsstring) list \<Rightarrow> jsstring + jsstring" where
  "join_texts [] = Inr []"
| "join_texts [r] = r"
| "join_texts (r # r' # rs) =
     (case r of
        Inl m \<Rightarrow> Inl m
      | Inr s \<Rightarrow>
          (case join_texts (r' # rs) of
             Inl m \<Rightarrow> Inl m
           | Inr t \<Rightarrow> Inr (s @ js '','' @ t)))"

fun ToString :: "world \<Rightarrow> jsval \<Rightarrow> jsstring + jsstring" where
  "ToString w JUndefined = Inr (js ''undefined'')"
| "ToString w JNull = Inr (js ''null'')"
| "ToString w (JBool b) = Inr (if b then js ''true'' else js ''false'')"
| "ToString w (JNum x) = Inr (number_text w x)"
| "ToString w (JStr s) = Inr s"
| "ToString w (JArr xs) =
     join_texts (map (\<lambda>x. if x = JUndefined \<or> x = JNull then Inr [] else ToString w x) xs)"
| "ToString w (JObj ps) =
     (if js ''toString'' \<in> fst ` set ps then Inl (conversion_error_text w)
      else Inr (js ''[object Object]''))"


section \<open>Request orchestrator\<close>

text \<open>
  How a block of statements ends: by running to its end with a value, by \<^verbatim>\<open>return\<close>, by
  a thrown error (its message), or never, at an \<^verbatim>\<open>await\<close> whose promise stays pending.
\<close>

datatype 'a completion =
    Normal 'a
  | Returns
  | Throws jsstring
  | Hangs

definition not_found_message :: jsstring where
  "not_found_message =
     js ''City not found. Try another name (e.g., '' @ [0x27] @ js ''Delhi'' @ [0x27]
     @ js '', '' @ [0x27] @ js ''San Francisco'' @ [0x27] @ js '').''"

text \<open>
  Lines 71 to 84 of \<^verbatim>\<open>fetchWeatherForCity\<close>: the geocoding request, ending normally with
  \<^verbatim>\<open>top\<close>.
\<close>

definition geocoding :: "world \<Rightarrow> jsstring \<Rightarrow> event list \<times> jsval completion" where
  "geocoding w query =
     (if \<not> well_formed_utf16 query then ([], Throws (uri_error_text w))
      else
        (case fetch w (GeocodingRequest query) of
           Pending \<Rightarrow> ([Fetch (GeocodingRequest query)], Hangs)
         | Rejected m \<Rightarrow> ([Fetch (GeocodingRequest query)], Throws m)
         | Fulfilled geoRes \<Rightarrow>
             if \<not> ok geoRes
             then ([Fetch (GeocodingRequest query)], Throws (js ''Geocoding request failed''))
             else
               (case json geoRes of
                  Pending \<Rightarrow> ([Fetch (GeocodingRequest query)], Hangs)
                | Rejected m \<Rightarrow> ([Fetch (GeocodingRequest query)], Throws m)
                | Fulfilled geoJson \<Rightarrow>
                    (case member w geoJson (js ''results'') of
                       Inl m \<Rightarrow> ([Fetch (GeocodingRequest query)], Throws m)
                     | Inr results \<Rightarrow>
                         if \<not> truthy results \<or> length_member w results = Inr (JNum 0)
                         then ([Fetch (GeocodingRequest query),
                                SetError (Some not_found_message)], Returns)
                         else
                           (case first_element w results of
                              Inl m \<Rightarrow> ([Fetch (GeocodingRequest query)], Throws m)
                            | Inr topResult \<Rightarrow>
                                ([Fetch (GeocodingRequest query)], Normal topResult))))))"

text \<open>
  The template literal of line 97: its three substitutions are converted in order, and the
  first conversion that throws ends it.
\<close>

definition city_name_text :: "world \<Rightarrow> jsval \<Rightarrow> jsval \<Rightarrow> jsval \<Rightarrow> jsstring + jsstring" where
  "city_name_text w resolvedName admin1 country =
     (case ToString w resolvedName of
        Inl m \<Rightarrow> Inl m
      | Inr nameText \<Rightarrow>
          (case (if truthy admin1
                 then (case ToString w admin1 of
                         Inl m \<Rightarrow> Inl m
                       | Inr adminText \<Rightarrow> Inr (js '', '' @ adminText))
                 else Inr []) of
             Inl m \<Rightarrow> Inl m
           | Inr segment \<Rightarrow>
               (case ToString w country of
                  Inl m \<Rightarrow> Inl m
                | Inr countryText \<Rightarrow> Inr (nameText @ segment @ js '', '' @ countryText))))"

text \<open>
  Lines 85 to 101: the destructuring of \<^verbatim>\<open>top\<close>, the forecast URL (whose template
  literal converts the latitude and the longitude), the forecast request and the call of
  \<^verbatim>\<open>setWeather\<close>, whose argument is built before the call.
\<close>

definition forecast :: "world \<Rightarrow> jsval \<Rightarrow> event list \<times> unit completion" where
  "forecast w topResult =
     (if nullish topResult then ([], Throws (type_error_text w topResult (js ''latitude'')))
      else
        (let lat = field topResult (js ''latitude'');
             lon = field topResult (js ''longitude'');
             resolvedName = field topResult (js ''name'');
             country = field topResult (js ''country'');
             admin1 = field topResult (js ''admin1'')
         in
           (case ToString w lat of
              Inl m \<Rightarrow> ([], Throws m)
            | Inr latText \<Rightarrow>
           (case ToString w lon of
              Inl m \<Rightarrow> ([], Throws m)
            | Inr lonText \<Rightarrow>
           (case fetch w (ForecastRequest lat lon) of
              Pending \<Rightarrow> ([Fetch (ForecastRequest lat lon)], Hangs)
            | Rejected m \<Rightarrow> ([Fetch (ForecastRequest lat lon)], Throws m)
            | Fulfilled forecastRes \<Rightarrow>
                if \<not> ok forecastRes
                then ([Fetch (ForecastRequest lat lon)], Throws (js ''Weather request failed''))
                else
                  (case json forecastRes of
                     Pending \<Rightarrow> ([Fetch (ForecastRequest lat lon)], Hangs)
                   | Rejected m \<Rightarrow> ([Fetch (ForecastRequest lat lon)], Throws m)
                   | Fulfilled forecastJson \<Rightarrow>
                       (case member w forecastJson (js ''current_weather'') of
                          Inl m \<Rightarrow> ([Fetch (ForecastRequest lat lon)], Throws m)
                        | Inr cur \<Rightarrow>
                            if \<not> truthy cur
                            then ([Fetch (ForecastRequest lat lon)],
                                  Throws (js ''No current weather available''))
                            else
                              (case city_name_text w resolvedName admin1 country of
                                 Inl m \<Rightarrow> ([Fetch (ForecastRequest lat lon)], Throws m)
                               | Inr text \<Rightarrow>
                                   ([Fetch (ForecastRequest lat lon),
                                     SetWeather (Some
                                       \<lparr>cityName = text,
                                        latitude = lat,
                                        longitude = lon,
                                        current = cur\<rparr>)],
                                    Normal ())))))))))"

text \<open>
  \<^verbatim>\<open>fetchWeatherForCity\<close>: the three resets, the \<^verbatim>\<open>try\<close> block, the \<^verbatim>\<open>catch\<close> clause
  with \<^verbatim>\<open>err.message || "Something went wrong"\<close> and the \<^verbatim>\<open>finally\<close> clause. The result
  is the effects performed and whether the call came to its end.
\<close>

definition try_block :: "world \<Rightarrow> jsstring \<Rightarrow> event list \<times> unit completion" where
  "try_block w query =
     (case geocoding w query of
        (evs, Normal topResult) \<Rightarrow> (case forecast w topResult of (evs', c) \<Rightarrow> (evs @ evs', c))
      | (evs, Returns) \<Rightarrow> (evs, Returns)
      | (evs, Throws m) \<Rightarrow> (evs, Throws m)
      | (evs, Hangs) \<Rightarrow> (evs, Hangs))"

definition fetchWeatherForCity :: "world \<Rightarrow> jsstring \<Rightarrow> event list \<times> bool" where
  "fetchWeatherForCity w query =
     (case try_block w query of
        (evs, Hangs) \<Rightarrow>
          ([SetLoading True, SetError None, SetWeather None] @ evs, False)
      | (evs, Throws m) \<Rightarrow>
          ([SetLoading True, SetError None, SetWeather None] @ evs
           @ [SetError (Some (if m = [] then js ''Something went wrong'' else m)),
              SetLoading False], True)
      | (evs, _) \<Rightarrow>
          ([SetLoading True, SetError None, SetWeather None] @ evs @ [SetLoading False], True))"

text \<open>\<^verbatim>\<open>handleSubmit\<close> reads the \<^verbatim>\<open>city\<close> cell; the input's \<^verbatim>\<open>onChange\<close> writes it.\<close>

definition handleSubmit :: "world \<Rightarrow> app_state \<Rightarrow> event list \<times> bool" where
  "handleSubmit w s =
     (let q = trim (city s) in
        if q = [] then ([PreventDefault, SetError (Some (js ''Please enter a city name.''))], True)
        else (case fetchWeatherForCity w q of (evs, finished) \<Rightarrow> (PreventDefault # evs, finished)))"

definition onChange :: "jsstring \<Rightarrow> event list" where
  "onChange text = [SetCity text]"

text \<open>One search as the user performs it: type a text into the input, then submit the form.\<close>

definition search :: "world \<Rightarrow> jsstring \<Rightarrow> app_state \<Rightarrow> app_state" where
  "search w text s =
     (let s' = run_events (onChange text) s
      in run_events (fst (handleSubmit w s')) s')"

definition loading_updates :: "event list \<Rightarrow> bool list" where
  "loading_updates evs = concat (map (\<lambda>ev. case ev of SetLoading b \<Rightarrow> [b] | _ \<Rightarrow> []) evs)"


section \<open>Sample worlds\<close>

text \<open>
  Concrete worlds on which the theorems below are instantiated. Numbers print as the
  decimal numeral of their integral part, which is \<^verbatim>\<open>Number::toString\<close> on integral values
  below \<open>10\<^sup>2\<^sup>1\<close>; the sample runs print numbers only into the forecast URL, of which
  the model keeps the values, not the text. The error texts are those of one engine. The
  network answers every geocoding request with one response and every forecast request
  with another.
\<close>

fun decimal_digits :: "nat \<Rightarrow> jsstring" where
  "decimal_digits n =
     (if n < 10 then [of_nat (48 + n)]
      else decimal_digits (n div 10) @ [of_nat (48 + n mod 10)])"

definition integral_number_text :: "real \<Rightarrow> jsstring" where
  "integral_number_text x =
     (if x < 0 then js ''-'' else []) @ decimal_digits (nat \<lfloor>\<bar>x\<bar>\<rfloor>)"

definition sample_world :: "response promise \<Rightarrow> response promise \<Rightarrow> world" where
  "sample_world geo fc =
     \<lparr>fetch = (\<lambda>r. case r of GeocodingRequest q \<Rightarrow> geo | ForecastRequest lat lon \<Rightarrow> fc),
      number_text = integral_number_text,
      type_error_text =
        (\<lambda>v k. js ''Cannot read properties of ''
           @ (if v = JNull then js ''null'' else js ''undefined'')
           @ js '' (reading '' @ [0x27] @ k @ [0x27] @ js '')''),
      conversion_error_text = js ''Cannot convert object to primitive value'',
      uri_error_text = js ''URI malformed''\<rparr>"

text \<open>The responses of the end-to-end example for London.\<close>

definition london_candidate :: jsval where
  "london_candidate =
     JObj [(js ''latitude'', JNum 51.5),
           (js ''longitude'', JNum (- 0.12)),
           (js ''name'', JStr (js ''London'')),
           (js ''country'', JStr (js ''United Kingdom''))]"

definition london_geocoding :: response where
  "london_geocoding =
     \<lparr>ok = True, json = Fulfilled (JObj [(js ''results'', JArr [london_candidate])])\<rparr>"

definition london_current :: jsval where
  "london_current =
     JObj [(js ''temperature'', JNum 15),
           (js ''windspeed'', JNum 10),
           (js ''winddirection'', JNum 200),
           (js ''weathercode'', JNum 3),
           (js ''time'', JStr (js ''2024-01-01T12:00''))]"

definition london_forecast :: response where
  "london_forecast =
     \<lparr>ok = True, json = Fulfilled (JObj [(js ''current_weather'', london_current)])\<rparr>"

text \<open>
  A successful response whose body has neither \<^verbatim>\<open>results\<close> nor \<^verbatim>\<open>current_weather\<close>, a
  successful response whose body is \<^verbatim>\<open>null\<close>, and a response with a non-success status.
\<close>

definition bare_response :: response where
  "bare_response = \<lparr>ok = True, json = Fulfilled (JObj [(js ''generationtime_ms'', JNum 1)])\<rparr>"

definition null_response :: response where
  "null_response = \<lparr>ok = True, json = Fulfilled JNull\<rparr>"

definition failed_response :: response where
  "failed_response =
     \<lparr>ok = False, json = Fulfilled (JObj [(js ''error'', JBool True)])\<rparr>"


section \<open>Properties of the lookup classifier\<close>

lemma first_match_emoji_rules: "first_match emoji_rules code = weatherCodeToEmoji code"
  by (simp add: emoji_rules_def weatherCodeToEmoji_def)

lemma distinct_rule_codes: "distinct (concat (map fst emoji_rules))"
  by (simp add: emoji_rules_def)

lemma rule_codes_are_table_keys:
  "set (concat (map fst emoji_rules)) = fst ` set weather_text_map"
  by (auto simp add: weather_text_map_def emoji_rules_def)

lemma text_of_unlisted_code:
  "code \<notin> fst ` set weather_text_map \<Longrightarrow> weatherCodeToText code = js ''Unknown''"
  by (simp add: weatherCodeToText_def map_of_eq_None_iff [THEN iffD2])

lemma first_match_unlisted:
  "code \<notin> set (concat (map fst rules)) \<Longrightarrow> first_match rules code = symbol_default"
  by (induction rules) auto

lemma emoji_of_unlisted_code:
  assumes "code \<notin> fst ` set weather_text_map"
  shows "weatherCodeToEmoji code = symbol_default"
proof -
  from assms have "code \<notin> set (concat (map fst emoji_rules))"
    by (simp only: rule_codes_are_table_keys not_False_eq_True)
  then have "first_match emoji_rules code = symbol_default"
    by (rule first_match_unlisted)
  then show ?thesis
    by (simp only: first_match_emoji_rules)
qed

text \<open>
  Claim C3. The classifier has a defined fallback: for every integer code from 0 to 99
  that is not a key of the description table, \<^verbatim>\<open>weatherCodeToText\<close> returns exactly
  \<^verbatim>\<open>"Unknown"\<close> and \<^verbatim>\<open>weatherCodeToEmoji\<close> returns the one default symbol. (Both functions
  are total, and the range bound is not needed for the conclusion.)
\<close>

theorem classifier_fallback:
  assumes "0 \<le> code" and "code \<le> 99" and "code \<notin> fst ` set weather_text_map"
  shows "weatherCodeToText code = js ''Unknown'' \<and> weatherCodeToEmoji code = symbol_default"
  using assms(3) by (simp add: text_of_unlisted_code emoji_of_unlisted_code)

theorem classifier_fallback_witness:
  "(0::int) \<le> 4 \<and> (4::int) \<le> 99 \<and> (4::int) \<notin> fst ` set weather_text_map
   \<and> weatherCodeToText 4 = js ''Unknown'' \<and> weatherCodeToEmoji 4 = symbol_default"
proof -
  have unlisted: "(4::int) \<notin> fst ` set weather_text_map"
    by (simp add: weather_text_map_def)
  with classifier_fallback [of 4] show ?thesis by simp
qed

lemma disjoint_nth:
  "distinct (concat xss) \<Longrightarrow> i < length xss \<Longrightarrow> j < length xss \<Longrightarrow> i \<noteq> j
   \<Longrightarrow> set (xss ! i) \<inter> set (xss ! j) = {}"
proof (induction xss arbitrary: i j)
  case Nil
  then show ?case by simp
next
  case (Cons xs xss)
  from Cons.prems(1) have rest: "distinct (concat xss)"
    and apart: "\<And>ys. ys \<in> set xss \<Longrightarrow> set xs \<inter> set ys = {}"
    by auto
  show ?case
  proof (cases i)
    case 0
    with Cons.prems obtain j' where "j = Suc j'" "j' < length xss"
      by (cases j) auto
    with 0 apart [of "xss ! j'"] show ?thesis by simp
  next
    case (Suc i')
    show ?thesis
    proof (cases j)
      case 0
      with Suc Cons.prems apart [of "xss ! i'"] show ?thesis by auto
    next
      case (Suc j')
      with \<open>i = Suc i'\<close> Cons.prems Cons.IH [OF rest, of i' j'] show ?thesis by simp
    qed
  qed
qed

lemma matching_at_most_one:
  "distinct (concat (map fst rules)) \<Longrightarrow> length (matching_rules rules code) \<le> 1"
proof (induction rules)
  case Nil
  then show ?case by (simp add: matching_rules_def)
next
  case (Cons rule rules)
  show ?case
  proof (cases "code \<in> set (fst rule)")
    case True
    with Cons.prems have "\<forall>r \<in> set rules. code \<notin> set (fst r)"
      by auto
    then have "matching_rules rules code = []"
      by (simp add: matching_rules_def)
    with True show ?thesis
      by (simp add: matching_rules_def)
  next
    case False
    with Cons show ?thesis
      by (simp add: matching_rules_def)
  qed
qed

lemma first_match_matching:
  "first_match rules code =
     (case matching_rules rules code of [] \<Rightarrow> symbol_default | rule # _ \<Rightarrow> snd rule)"
  by (induction rules) (auto simp: matching_rules_def)

lemma short_list_by_mset:
  assumes "mset xs = mset ys" and "length ys \<le> 1"
  shows "xs = ys"
proof (cases ys)
  case Nil
  with assms show ?thesis by simp
next
  case (Cons y zs)
  with assms have "ys = [y]" by simp
  with assms show ?thesis by (simp add: mset_single_iff)
qed

lemma first_match_permuted:
  assumes "distinct (concat (map fst rules))" and "mset rs = mset rules"
  shows "first_match rs code = first_match rules code"
proof -
  have "mset (matching_rules rs code) = mset (matching_rules rules code)"
    using assms(2) unfolding matching_rules_def mset_filter [symmetric] by simp
  then have "matching_rules rs code = matching_rules rules code"
    using matching_at_most_one [OF assms(1)] by (rule short_list_by_mset)
  then show ?thesis
    by (simp add: first_match_matching)
qed

text \<open>
  Claim C4. The integer sets tested by the rules of \<^verbatim>\<open>weatherCodeToEmoji\<close> are pairwise
  disjoint, so every code matches at most one rule, and evaluating the rules by first
  match in any order (any permutation of the rule list) returns the symbol the source
  order returns.
\<close>

theorem symbol_rules_disjoint_and_order_free:
  "(\<forall>i < length emoji_rules. \<forall>j < length emoji_rules. i \<noteq> j \<longrightarrow>
      set (fst (emoji_rules ! i)) \<inter> set (fst (emoji_rules ! j)) = {})
   \<and> (\<forall>code. length (matching_rules emoji_rules code) \<le> 1)
   \<and> (\<forall>rules code. mset rules = mset emoji_rules \<longrightarrow>
        first_match rules code = weatherCodeToEmoji code)"
proof (intro conjI allI impI)
  fix i j
  assume "i < length emoji_rules" "j < length emoji_rules" "i \<noteq> j"
  then show "set (fst (emoji_rules ! i)) \<inter> set (fst (emoji_rules ! j)) = {}"
    using disjoint_nth [OF distinct_rule_codes, of i j] by simp
next
  fix code
  show "length (matching_rules emoji_rules code) \<le> 1"
    by (rule matching_at_most_one [OF distinct_rule_codes])
next
  fix rules code
  assume "mset rules = mset emoji_rules"
  then show "first_match rules code = weatherCodeToEmoji code"
    using first_match_permuted [OF distinct_rule_codes] first_match_emoji_rules by simp
qed

theorem symbol_rules_disjoint_and_order_free_witness:
  "mset (rev emoji_rules) = mset emoji_rules
   \<and> first_match (rev emoji_rules) 66 = weatherCodeToEmoji 66
   \<and> weatherCodeToEmoji 66 = symbol_freezing_rain
   \<and> (0::nat) < length emoji_rules \<and> (1::nat) < length emoji_rules
   \<and> set (fst (emoji_rules ! 0)) \<inter> set (fst (emoji_rules ! 1)) = {}"
  using symbol_rules_disjoint_and_order_free
  by (simp add: emoji_rules_def weatherCodeToEmoji_def)

lemmas symbol_defs =
  symbol_clear_def symbol_partly_cloudy_def symbol_overcast_def symbol_fog_def
  symbol_rain_def symbol_freezing_rain_def symbol_snow_def symbol_thunderstorm_def
  symbol_default_def

text \<open>
  Claim C9. Fixed values of the classifier: code 0 is described as \<^verbatim>\<open>"Clear sky"\<close> and
  code 95 as \<^verbatim>\<open>"Thunderstorm"\<close>; the symbol of code 0 is the clear-sky symbol, which no
  other code receives; code 3 is described as \<^verbatim>\<open>"Overcast"\<close> and its symbol is the
  overcast symbol, which no other code receives.
\<close>

theorem classifier_fixed_values:
  "weatherCodeToText 0 = js ''Clear sky''
   \<and> weatherCodeToText 95 = js ''Thunderstorm''
   \<and> weatherCodeToEmoji 0 = symbol_clear
   \<and> (weatherCodeToEmoji code = symbol_clear \<longleftrightarrow> code = 0)
   \<and> weatherCodeToText 3 = js ''Overcast''
   \<and> weatherCodeToEmoji 3 = symbol_overcast
   \<and> (weatherCodeToEmoji code = symbol_overcast \<longleftrightarrow> code = 3)"
proof (intro conjI)
  show "weatherCodeToText 0 = js ''Clear sky''"
    by (simp add: weatherCodeToText_def weather_text_map_def)
  show "weatherCodeToText 95 = js ''Thunderstorm''"
    by (simp add: weatherCodeToText_def weather_text_map_def)
  show "weatherCodeToText 3 = js ''Overcast''"
    by (simp add: weatherCodeToText_def weather_text_map_def)
  show "weatherCodeToEmoji 0 = symbol_clear"
    by (simp add: weatherCodeToEmoji_def)
  show "weatherCodeToEmoji 3 = symbol_overcast"
    by (simp add: weatherCodeToEmoji_def)
  show "weatherCodeToEmoji code = symbol_clear \<longleftrightarrow> code = 0"
    by (simp add: weatherCodeToEmoji_def symbol_defs)
  show "weatherCodeToEmoji code = symbol_overcast \<longleftrightarrow> code = 3"
    by (simp add: weatherCodeToEmoji_def symbol_defs)
qed

theorem classifier_fixed_values_witness:
  "weatherCodeToEmoji 1 \<noteq> symbol_clear \<and> weatherCodeToEmoji 0 \<noteq> symbol_overcast
   \<and> weatherCodeToEmoji 3 \<noteq> symbol_clear"
  using classifier_fixed_values [of 1] classifier_fixed_values [of 0]
    classifier_fixed_values [of 3]
  by simp


section \<open>Properties of the request orchestrator\<close>

lemma trim_blank:
  assumes "\<forall>c \<in> set s. isWhiteSpace c"
  shows "trim s = []"
proof -
  from assms have "dropWhile isWhiteSpace s = []"
    by (simp add: dropWhile_eq_Nil_conv)
  then show ?thesis
    unfolding trim_def by (simp only: rev.simps dropWhile.simps)
qed

text \<open>
  Claim C1. When the query text is empty or consists only of whitespace (the code units
  \<^verbatim>\<open>trim\<close> removes), \<^verbatim>\<open>handleSubmit\<close> stores the validation error
  \<^verbatim>\<open>"Please enter a city name."\<close> and issues no request: its only effects are
  \<^verbatim>\<open>preventDefault\<close> and \<^verbatim>\<open>setError\<close>, so neither the geocoding nor the forecast call is
  made.
\<close>

theorem blank_query_rejected_without_request:
  assumes "\<forall>c \<in> set (city s). isWhiteSpace c"
  shows "handleSubmit w s
           = ([PreventDefault, SetError (Some (js ''Please enter a city name.''))], True)
    \<and> requests (fst (handleSubmit w s)) = []
    \<and> error (run_events (fst (handleSubmit w s)) s) = Some (js ''Please enter a city name.'')"
  using trim_blank [OF assms]
  by (simp add: handleSubmit_def requests_def run_events_def)

theorem blank_query_rejected_without_request_witness:
  "list_all isWhiteSpace (city initial_state)
   \<and> list_all isWhiteSpace (city (initial_state\<lparr>city := js ''   ''\<rparr>))
   \<and> requests (fst (handleSubmit
        (sample_world (Fulfilled london_geocoding) (Fulfilled london_forecast)) initial_state)) = []
   \<and> error (run_events (fst (handleSubmit
        (sample_world (Fulfilled london_geocoding) (Fulfilled london_forecast))
        (initial_state\<lparr>city := js ''   ''\<rparr>))) (initial_state\<lparr>city := js ''   ''\<rparr>))
       = Some (js ''Please enter a city name.'')"
proof -
  let ?w = "sample_world (Fulfilled london_geocoding) (Fulfilled london_forecast)"
  have empty: "list_all isWhiteSpace (city initial_state)"
    by (simp add: initial_state_def)
  have spaces: "list_all isWhiteSpace (city (initial_state\<lparr>city := js ''   ''\<rparr>))"
    by (simp add: js_def isWhiteSpace_def)
  from empty have "\<forall>c \<in> set (city initial_state). isWhiteSpace c"
    by (simp only: list_all_iff)
  note first = blank_query_rejected_without_request [OF this, of ?w]
  from spaces have "\<forall>c \<in> set (city (initial_state\<lparr>city := js ''   ''\<rparr>)). isWhiteSpace c"
    by (simp only: list_all_iff)
  note second = blank_query_rejected_without_request [OF this, of ?w]
  from empty spaces first second show ?thesis
    by blast
qed

lemma geocoding_Normal:
  "geocoding w query = (evs, Normal topResult) \<Longrightarrow> evs = [Fetch (GeocodingRequest query)]"
  by (auto simp: geocoding_def split: if_splits promise.splits sum.splits)

lemma geocoding_not_ok:
  "well_formed_utf16 query \<Longrightarrow> fetch w (GeocodingRequest query) = Fulfilled geoRes \<Longrightarrow> \<not> ok geoRes
   \<Longrightarrow> geocoding w query = ([Fetch (GeocodingRequest query)], Throws (js ''Geocoding request failed''))"
  by (simp add: geocoding_def)

lemma geocoding_no_results:
  assumes "well_formed_utf16 query" "fetch w (GeocodingRequest query) = Fulfilled geoRes" "ok geoRes"
    "json geoRes = Fulfilled geoJson" "\<not> nullish geoJson"
    "field geoJson (js ''results'') = JUndefined \<or> field geoJson (js ''results'') = JArr []"
  shows "geocoding w query = ([Fetch (GeocodingRequest query), SetError (Some not_found_message)], Returns)"
  using assms by (auto simp add: geocoding_def member_def)

lemma forecast_not_ok:
  assumes "\<not> nullish topResult"
    "ToString w (field topResult (js ''latitude'')) = Inr latText"
    "ToString w (field topResult (js ''longitude'')) = Inr lonText"
    "fetch w (ForecastRequest (field topResult (js ''latitude'')) (field topResult (js ''longitude''))) = Fulfilled forecastRes"
    "\<not> ok forecastRes"
  shows "forecast w topResult = ([Fetch (ForecastRequest (field topResult (js ''latitude'')) (field topResult (js ''longitude'')))], Throws (js ''Weather request failed''))"
  using assms by (simp add: forecast_def Let_def)

lemma forecast_no_current:
  assumes "\<not> nullish topResult"
    "ToString w (field topResult (js ''latitude'')) = Inr latText"
    "ToString w (field topResult (js ''longitude'')) = Inr lonText"
    "fetch w (ForecastRequest (field topResult (js ''latitude'')) (field topResult (js ''longitude''))) = Fulfilled forecastRes"
    "ok forecastRes" "json forecastRes = Fulfilled forecastJson" "\<not> nullish forecastJson"
    "\<not> truthy (field forecastJson (js ''current_weather''))"
  shows "forecast w topResult = ([Fetch (ForecastRequest (field topResult (js ''latitude'')) (field topResult (js ''longitude'')))], Throws (js ''No current weather available''))"
  using assms by (simp add: forecast_def Let_def member_def)

lemmas orchestrator_defs =
  fetchWeatherForCity_def try_block_def geocoding_def forecast_def member_def Let_def

lemmas orchestrator_splits =
  if_splits promise.splits sum.splits prod.splits completion.splits

lemma failure_clears_weather:
  "error (run_events (fst (fetchWeatherForCity w query)) s) \<noteq> None
   \<Longrightarrow> weather (run_events (fst (fetchWeatherForCity w query)) s) = None"
  by (auto simp: orchestrator_defs run_events_def split: orchestrator_splits)

lemma outcome_independent_of_prior_state:
  "weather (run_events (fst (fetchWeatherForCity w query)) s)
     = weather (run_events (fst (fetchWeatherForCity w query)) s')
   \<and> error (run_events (fst (fetchWeatherForCity w query)) s)
     = error (run_events (fst (fetchWeatherForCity w query)) s')
   \<and> loading (run_events (fst (fetchWeatherForCity w query)) s)
     = loading (run_events (fst (fetchWeatherForCity w query)) s')"
  by (auto simp: orchestrator_defs run_events_def split: orchestrator_splits)

lemma finished_one_outcome:
  "snd (fetchWeatherForCity w query) \<Longrightarrow>
    (weather (run_events (fst (fetchWeatherForCity w query)) s) = None)
     \<noteq> (error (run_events (fst (fetchWeatherForCity w query)) s) = None)"
  by (auto simp: orchestrator_defs run_events_def not_found_message_def split: orchestrator_splits)

lemma loading_protocol:
  "loading_updates (fst (fetchWeatherForCity w query))
     = (if snd (fetchWeatherForCity w query) then [True, False] else [True])
   \<and> hd (fst (fetchWeatherForCity w query)) = SetLoading True
   \<and> (snd (fetchWeatherForCity w query) \<longrightarrow> last (fst (fetchWeatherForCity w query)) = SetLoading False)
   \<and> loading (run_events (fst (fetchWeatherForCity w query)) s) = (\<not> snd (fetchWeatherForCity w query))
   \<and> snd (fetchWeatherForCity w query) = (snd (try_block w query) \<noteq> Hangs)"
  by (auto simp: orchestrator_defs run_events_def loading_updates_def split: orchestrator_splits)

lemma london_run:
  "fetchWeatherForCity (sample_world (Fulfilled london_geocoding) (Fulfilled london_forecast)) (js ''London'')
   = ([SetLoading True, SetError None, SetWeather None,
       Fetch (GeocodingRequest (js ''London'')),
       Fetch (ForecastRequest (JNum 51.5) (JNum (- 0.12))),
       SetWeather (Some \<lparr>cityName = js ''London, United Kingdom'', latitude = JNum 51.5,
                         longitude = JNum (- 0.12), current = london_current\<rparr>),
       SetLoading False], True)"
  by (simp add: orchestrator_defs sample_world_def london_geocoding_def london_forecast_def
      london_candidate_def london_current_def own_property_def nullish_def city_name_text_def js_def)

text \<open>
  Claim C6. A response with a non-success status ends the run with an error naming the
  failed stage. If the geocoding request is answered (the query can be encoded into its
  URL) by a response that is not \<^verbatim>\<open>ok\<close>, the stored error is \<^verbatim>\<open>"Geocoding request failed"\<close>
  and the geocoding request is the only request issued, so the forecast call is never
  made. If the geocoding stage yielded a candidate, the forecast request is issued (the
  candidate's latitude and longitude can be converted into its URL) and the forecast
  response is not \<^verbatim>\<open>ok\<close>, the stored error is \<^verbatim>\<open>"Weather request failed"\<close>. In both cases no
  weather is stored.
\<close>

theorem failed_status_reports_stage:
  "(well_formed_utf16 query \<and> fetch w (GeocodingRequest query) = Fulfilled geoRes \<and> \<not> ok geoRes \<longrightarrow>
      fetchWeatherForCity w query
        = ([SetLoading True, SetError None, SetWeather None, Fetch (GeocodingRequest query),
            SetError (Some (js ''Geocoding request failed'')), SetLoading False], True)
      \<and> requests (fst (fetchWeatherForCity w query)) = [GeocodingRequest query]
      \<and> error (run_events (fst (fetchWeatherForCity w query)) s) = Some (js ''Geocoding request failed'')
      \<and> weather (run_events (fst (fetchWeatherForCity w query)) s) = None)
   \<and> (geocoding w query = (evs, Normal topResult) \<and> \<not> nullish topResult
       \<and> ToString w (field topResult (js ''latitude'')) = Inr latText
       \<and> ToString w (field topResult (js ''longitude'')) = Inr lonText
       \<and> fetch w (ForecastRequest (field topResult (js ''latitude'')) (field topResult (js ''longitude'')))
           = Fulfilled forecastRes
       \<and> \<not> ok forecastRes \<longrightarrow>
      fetchWeatherForCity w query
        = ([SetLoading True, SetError None, SetWeather None, Fetch (GeocodingRequest query),
            Fetch (ForecastRequest (field topResult (js ''latitude'')) (field topResult (js ''longitude''))),
            SetError (Some (js ''Weather request failed'')), SetLoading False], True)
      \<and> error (run_events (fst (fetchWeatherForCity w query)) s) = Some (js ''Weather request failed'')
      \<and> weather (run_events (fst (fetchWeatherForCity w query)) s) = None)"
proof -
  have geocoding_part:
    "fetchWeatherForCity w query
        = ([SetLoading True, SetError None, SetWeather None, Fetch (GeocodingRequest query),
            SetError (Some (js ''Geocoding request failed'')), SetLoading False], True)
      \<and> requests (fst (fetchWeatherForCity w query)) = [GeocodingRequest query]
      \<and> error (run_events (fst (fetchWeatherForCity w query)) s) = Some (js ''Geocoding request failed'')
      \<and> weather (run_events (fst (fetchWeatherForCity w query)) s) = None"
    if "well_formed_utf16 query" "fetch w (GeocodingRequest query) = Fulfilled geoRes" "\<not> ok geoRes"
  proof -
    from that have "try_block w query
        = ([Fetch (GeocodingRequest query)], Throws (js ''Geocoding request failed''))"
      by (simp add: try_block_def geocoding_not_ok)
    then have "fetchWeatherForCity w query
        = ([SetLoading True, SetError None, SetWeather None, Fetch (GeocodingRequest query),
            SetError (Some (js ''Geocoding request failed'')), SetLoading False], True)"
      by (simp add: fetchWeatherForCity_def js_def)
    then show ?thesis
      by (simp add: requests_def run_events_def)
  qed
  have forecast_part:
    "fetchWeatherForCity w query
        = ([SetLoading True, SetError None, SetWeather None, Fetch (GeocodingRequest query),
            Fetch (ForecastRequest (field topResult (js ''latitude'')) (field topResult (js ''longitude''))),
            SetError (Some (js ''Weather request failed'')), SetLoading False], True)
      \<and> error (run_events (fst (fetchWeatherForCity w query)) s) = Some (js ''Weather request failed'')
      \<and> weather (run_events (fst (fetchWeatherForCity w query)) s) = None"
    if geo: "geocoding w query = (evs, Normal topResult)" and top: "\<not> nullish topResult"
      and lat: "ToString w (field topResult (js ''latitude'')) = Inr latText"
      and lon: "ToString w (field topResult (js ''longitude'')) = Inr lonText"
      and res: "fetch w (ForecastRequest (field topResult (js ''latitude'')) (field topResult (js ''longitude'')))
           = Fulfilled forecastRes"
      and status: "\<not> ok forecastRes"
  proof -
    from top lat lon res status have "forecast w topResult
       = ([Fetch (ForecastRequest (field topResult (js ''latitude'')) (field topResult (js ''longitude'')))],
          Throws (js ''Weather request failed''))"
      by (rule forecast_not_ok)
    with geo geocoding_Normal [OF geo] have "try_block w query
        = ([Fetch (GeocodingRequest query),
            Fetch (ForecastRequest (field topResult (js ''latitude'')) (field topResult (js ''longitude'')))],
           Throws (js ''Weather request failed''))"
      by (simp add: try_block_def)
    then have "fetchWeatherForCity w query
        = ([SetLoading True, SetError None, SetWeather None, Fetch (GeocodingRequest query),
            Fetch (ForecastRequest (field topResult (js ''latitude'')) (field topResult (js ''longitude''))),
            SetError (Some (js ''Weather request failed'')), SetLoading False], True)"
      by (simp add: fetchWeatherForCity_def js_def)
    then show ?thesis
      by (simp add: run_events_def)
  qed
  from geocoding_part forecast_part show ?thesis
    by blast
qed

lemma london_geocoding_stage:
  "geocoding (sample_world (Fulfilled london_geocoding) fc) (js ''London'')
     = ([Fetch (GeocodingRequest (js ''London''))], Normal london_candidate)"
  by (simp add: geocoding_def member_def sample_world_def london_geocoding_def
      london_candidate_def own_property_def nullish_def js_def)

lemma london_candidate_fields:
  "\<not> nullish london_candidate"
  "field london_candidate (js ''latitude'') = JNum 51.5"
  "field london_candidate (js ''longitude'') = JNum (- 0.12)"
  by (simp_all add: london_candidate_def own_property_def nullish_def js_def)

lemma london_candidate_texts:
  "ToString (sample_world geo fc) (field london_candidate (js ''latitude''))
     = Inr (integral_number_text 51.5)"
  "ToString (sample_world geo fc) (field london_candidate (js ''longitude''))
     = Inr (integral_number_text (- 0.12))"
  by (simp_all add: london_candidate_fields sample_world_def)

theorem failed_status_reports_stage_witness:
  "well_formed_utf16 (js ''London'')
   \<and> fetch (sample_world (Fulfilled failed_response) Pending) (GeocodingRequest (js ''London''))
       = Fulfilled failed_response
   \<and> \<not> ok failed_response
   \<and> requests (fst (fetchWeatherForCity (sample_world (Fulfilled failed_response) Pending) (js ''London'')))
       = [GeocodingRequest (js ''London'')]
   \<and> error (run_events (fst (fetchWeatherForCity (sample_world (Fulfilled failed_response) Pending)
         (js ''London''))) initial_state) = Some (js ''Geocoding request failed'')
   \<and> geocoding (sample_world (Fulfilled london_geocoding) (Fulfilled failed_response)) (js ''London'')
       = ([Fetch (GeocodingRequest (js ''London''))], Normal london_candidate)
   \<and> \<not> nullish london_candidate
   \<and> ToString (sample_world (Fulfilled london_geocoding) (Fulfilled failed_response))
         (field london_candidate (js ''latitude'')) = Inr (integral_number_text 51.5)
   \<and> ToString (sample_world (Fulfilled london_geocoding) (Fulfilled failed_response))
         (field london_candidate (js ''longitude'')) = Inr (integral_number_text (- 0.12))
   \<and> fetch (sample_world (Fulfilled london_geocoding) (Fulfilled failed_response))
         (ForecastRequest (field london_candidate (js ''latitude''))
           (field london_candidate (js ''longitude'')))
       = Fulfilled failed_response
   \<and> error (run_events (fst (fetchWeatherForCity
         (sample_world (Fulfilled london_geocoding) (Fulfilled failed_response)) (js ''London'')))
         initial_state) = Some (js ''Weather request failed'')"
proof -
  let ?down = "sample_world (Fulfilled failed_response) Pending"
  let ?half = "sample_world (Fulfilled london_geocoding) (Fulfilled failed_response)"
  have wf: "well_formed_utf16 (js ''London'')"
    by (simp add: js_def)
  have geo: "fetch ?down (GeocodingRequest (js ''London'')) = Fulfilled failed_response"
    by (simp add: sample_world_def)
  have status: "\<not> ok failed_response"
    by (simp add: failed_response_def)
  have fc: "fetch ?half (ForecastRequest (field london_candidate (js ''latitude''))
           (field london_candidate (js ''longitude''))) = Fulfilled failed_response"
    by (simp add: sample_world_def)
  note stage = london_geocoding_stage [of "Fulfilled failed_response"]
  note top = london_candidate_fields(1)
  note lat = london_candidate_texts(1) [of "Fulfilled london_geocoding" "Fulfilled failed_response"]
  note lon = london_candidate_texts(2) [of "Fulfilled london_geocoding" "Fulfilled failed_response"]
  from failed_status_reports_stage
      [where w = ?down and query = "js ''London''" and geoRes = failed_response
        and s = initial_state]
    wf geo status
  have first: "requests (fst (fetchWeatherForCity ?down (js ''London''))) = [GeocodingRequest (js ''London'')]
    \<and> error (run_events (fst (fetchWeatherForCity ?down (js ''London''))) initial_state)
        = Some (js ''Geocoding request failed'')"
    by blast
  from failed_status_reports_stage
      [where w = ?half and query = "js ''London''" and s = initial_state
        and evs = "[Fetch (GeocodingRequest (js ''London''))]" and topResult = london_candidate
        and latText = "integral_number_text 51.5"
        and lonText = "integral_number_text (- 0.12)" and forecastRes = failed_response]
    stage top lat lon fc status
  have second: "error (run_events (fst (fetchWeatherForCity ?half (js ''London''))) initial_state)
        = Some (js ''Weather request failed'')"
    by blast
  from wf geo status stage top lat lon fc first second show ?thesis
    by blast
qed

lemma field_missing: "k \<notin> fst ` set ps \<Longrightarrow> field (JObj ps) k = JUndefined"
  by (simp add: own_property_def map_of_eq_None_iff [THEN iffD2])

text \<open>
  Claim C5, as the code has it. When the geocoding stage has yielded a candidate, the
  forecast request is issued and its response is successful, and the body is a JSON value
  other than \<^verbatim>\<open>null\<close> that has no current-conditions payload (reading \<^verbatim>\<open>current_weather\<close>
  gives \<^verbatim>\<open>undefined\<close>, or another falsy value such as \<^verbatim>\<open>null\<close>), the run ends with the
  stored error \<^verbatim>\<open>"No current weather available"\<close>, and no weather is stored.
\<close>

theorem missing_current_weather_reported:
  assumes "geocoding w query = (evs, Normal topResult)" and "\<not> nullish topResult"
    and "ToString w (field topResult (js ''latitude'')) = Inr latText"
    and "ToString w (field topResult (js ''longitude'')) = Inr lonText"
    and "fetch w (ForecastRequest (field topResult (js ''latitude'')) (field topResult (js ''longitude'')))
           = Fulfilled forecastRes"
    and "ok forecastRes" and "json forecastRes = Fulfilled forecastJson"
    and "\<not> nullish forecastJson"
    and "\<not> truthy (field forecastJson (js ''current_weather''))"
  shows "fetchWeatherForCity w query
        = ([SetLoading True, SetError None, SetWeather None, Fetch (GeocodingRequest query),
            Fetch (ForecastRequest (field topResult (js ''latitude'')) (field topResult (js ''longitude''))),
            SetError (Some (js ''No current weather available'')), SetLoading False], True)
      \<and> error (run_events (fst (fetchWeatherForCity w query)) s)
          = Some (js ''No current weather available'')
      \<and> weather (run_events (fst (fetchWeatherForCity w query)) s) = None"
proof -
  from assms(2-9) have "forecast w topResult
       = ([Fetch (ForecastRequest (field topResult (js ''latitude'')) (field topResult (js ''longitude'')))],
          Throws (js ''No current weather available''))"
    by (rule forecast_no_current)
  with assms(1) geocoding_Normal [OF assms(1)] have "try_block w query
        = ([Fetch (GeocodingRequest query),
            Fetch (ForecastRequest (field topResult (js ''latitude'')) (field topResult (js ''longitude'')))],
           Throws (js ''No current weather available''))"
    by (simp add: try_block_def)
  then have "fetchWeatherForCity w query
        = ([SetLoading True, SetError None, SetWeather None, Fetch (GeocodingRequest query),
            Fetch (ForecastRequest (field topResult (js ''latitude'')) (field topResult (js ''longitude''))),
            SetError (Some (js ''No current weather available'')), SetLoading False], True)"
    by (simp add: fetchWeatherForCity_def js_def)
  then show ?thesis
    by (simp add: run_events_def)
qed

theorem missing_current_weather_reported_witness:
  "geocoding (sample_world (Fulfilled london_geocoding) (Fulfilled bare_response)) (js ''London'')
       = ([Fetch (GeocodingRequest (js ''London''))], Normal london_candidate)
   \<and> \<not> nullish london_candidate
   \<and> ToString (sample_world (Fulfilled london_geocoding) (Fulfilled bare_response))
         (field london_candidate (js ''latitude'')) = Inr (integral_number_text 51.5)
   \<and> ToString (sample_world (Fulfilled london_geocoding) (Fulfilled bare_response))
         (field london_candidate (js ''longitude'')) = Inr (integral_number_text (- 0.12))
   \<and> fetch (sample_world (Fulfilled london_geocoding) (Fulfilled bare_response))
         (ForecastRequest (field london_candidate (js ''latitude''))
           (field london_candidate (js ''longitude'')))
       = Fulfilled bare_response
   \<and> ok bare_response
   \<and> json bare_response = Fulfilled (JObj [(js ''generationtime_ms'', JNum 1)])
   \<and> \<not> nullish (JObj [(js ''generationtime_ms'', JNum 1)])
   \<and> \<not> truthy (field (JObj [(js ''generationtime_ms'', JNum 1)]) (js ''current_weather''))
   \<and> error (run_events (fst (fetchWeatherForCity
         (sample_world (Fulfilled london_geocoding) (Fulfilled bare_response)) (js ''London'')))
         initial_state) = Some (js ''No current weather available'')
   \<and> weather (run_events (fst (fetchWeatherForCity
         (sample_world (Fulfilled london_geocoding) (Fulfilled bare_response)) (js ''London'')))
         initial_state) = None"
proof -
  let ?w = "sample_world (Fulfilled london_geocoding) (Fulfilled bare_response)"
  let ?body = "JObj [(js ''generationtime_ms'', JNum 1)]"
  note stage = london_geocoding_stage [of "Fulfilled bare_response"]
  note top = london_candidate_fields(1)
  note lat = london_candidate_texts(1) [of "Fulfilled london_geocoding" "Fulfilled bare_response"]
  note lon = london_candidate_texts(2) [of "Fulfilled london_geocoding" "Fulfilled bare_response"]
  have fc: "fetch ?w (ForecastRequest (field london_candidate (js ''latitude''))
           (field london_candidate (js ''longitude''))) = Fulfilled bare_response"
    by (simp add: sample_world_def)
  have status: "ok bare_response"
    by (simp add: bare_response_def)
  have body: "json bare_response = Fulfilled ?body"
    by (simp add: bare_response_def)
  have obj: "\<not> nullish ?body"
    by (simp add: nullish_def)
  have missing: "\<not> truthy (field ?body (js ''current_weather''))"
    by (simp add: own_property_def js_def)
  from missing_current_weather_reported
      [OF stage top lat lon fc status body obj missing, of initial_state]
    stage top lat lon fc status body obj missing
  show ?thesis
    by blast
qed

text \<open>
  A body that is \<^verbatim>\<open>null\<close> has no payload either, but line 93 cannot read its property:
  the TypeError is caught and its message is the stored error.
\<close>

lemma null_forecast_body_throws:
  assumes "\<not> nullish topResult"
    and "ToString w (field topResult (js ''latitude'')) = Inr latText"
    and "ToString w (field topResult (js ''longitude'')) = Inr lonText"
    and "fetch w (ForecastRequest (field topResult (js ''latitude'')) (field topResult (js ''longitude'')))
           = Fulfilled forecastRes"
    and "ok forecastRes" and "json forecastRes = Fulfilled JNull"
  shows "snd (forecast w topResult) = Throws (type_error_text w JNull (js ''current_weather''))"
  using assms by (simp add: forecast_def Let_def member_def nullish_def)

lemma london_null_forecast_run:
  "fetchWeatherForCity (sample_world (Fulfilled london_geocoding) (Fulfilled null_response)) (js ''London'')
   = ([SetLoading True, SetError None, SetWeather None,
       Fetch (GeocodingRequest (js ''London'')),
       Fetch (ForecastRequest (JNum 51.5) (JNum (- 0.12))),
       SetError (Some (js ''Cannot read properties of null (reading ''
                       @ [0x27] @ js ''current_weather'' @ [0x27] @ js '')'')),
       SetLoading False], True)"
  by (simp add: orchestrator_defs sample_world_def london_geocoding_def null_response_def
      london_candidate_def own_property_def nullish_def js_def)

theorem null_forecast_body_reports_type_error:
  "json null_response = Fulfilled JNull
   \<and> field JNull (js ''current_weather'') = JUndefined
   \<and> error (run_events (fst (fetchWeatherForCity
         (sample_world (Fulfilled london_geocoding) (Fulfilled null_response)) (js ''London'')))
         initial_state)
       = Some (js ''Cannot read properties of null (reading ''
               @ [0x27] @ js ''current_weather'' @ [0x27] @ js '')'')
   \<and> error (run_events (fst (fetchWeatherForCity
         (sample_world (Fulfilled london_geocoding) (Fulfilled null_response)) (js ''London'')))
         initial_state)
       \<noteq> Some (js ''No current weather available'')"
proof -
  have "json null_response = Fulfilled JNull"
    by (simp add: null_response_def)
  moreover have "js ''Cannot read properties of null (reading ''
               @ [0x27] @ js ''current_weather'' @ [0x27] @ js '')''
           \<noteq> js ''No current weather available''"
    by (simp add: js_def)
  ultimately show ?thesis
    by (simp add: london_null_forecast_run run_events_def)
qed

lemma not_found_message_facts:
  "prefix (js ''City not found'') not_found_message"
  "not_found_message \<notin> set [js ''Geocoding request failed'', js ''Weather request failed'',
      js ''No current weather available'', js ''Please enter a city name.'',
      js ''Something went wrong'']"
  by (simp_all add: not_found_message_def js_def)

text \<open>
  Claim C7, as the code has it. When the geocoding response is successful, its body is a
  JSON value other than \<^verbatim>\<open>null\<close> and the \<^verbatim>\<open>results\<close> of the body are missing or an empty
  array, the run ends with the not-found message stored as the error; the message begins
  with \<^verbatim>\<open>City not found\<close> and differs from every hard-error message of the program; the
  geocoding request is the only request issued, so the forecast call is never made.
\<close>

theorem no_results_reports_not_found:
  assumes "well_formed_utf16 query" and "fetch w (GeocodingRequest query) = Fulfilled geoRes"
    and "ok geoRes" and "json geoRes = Fulfilled geoJson" and "\<not> nullish geoJson"
    and "field geoJson (js ''results'') = JUndefined \<or> field geoJson (js ''results'') = JArr []"
  shows "fetchWeatherForCity w query
        = ([SetLoading True, SetError None, SetWeather None, Fetch (GeocodingRequest query),
            SetError (Some not_found_message), SetLoading False], True)
      \<and> requests (fst (fetchWeatherForCity w query)) = [GeocodingRequest query]
      \<and> error (run_events (fst (fetchWeatherForCity w query)) s) = Some not_found_message
      \<and> weather (run_events (fst (fetchWeatherForCity w query)) s) = None
      \<and> prefix (js ''City not found'') not_found_message
      \<and> not_found_message \<notin> set [js ''Geocoding request failed'', js ''Weather request failed'',
            js ''No current weather available'', js ''Please enter a city name.'',
            js ''Something went wrong'']"
proof -
  from assms have "try_block w query
      = ([Fetch (GeocodingRequest query), SetError (Some not_found_message)], Returns)"
    by (simp add: try_block_def geocoding_no_results)
  then have "fetchWeatherForCity w query
        = ([SetLoading True, SetError None, SetWeather None, Fetch (GeocodingRequest query),
            SetError (Some not_found_message), SetLoading False], True)"
    by (simp add: fetchWeatherForCity_def)
  then show ?thesis
    using not_found_message_facts by (simp add: requests_def run_events_def)
qed

theorem no_results_reports_not_found_witness:
  "well_formed_utf16 (js ''Nonexistentplacexyz'')
   \<and> fetch (sample_world (Fulfilled bare_response) (Fulfilled london_forecast))
        (GeocodingRequest (js ''Nonexistentplacexyz'')) = Fulfilled bare_response
   \<and> ok bare_response
   \<and> json bare_response = Fulfilled (JObj [(js ''generationtime_ms'', JNum 1)])
   \<and> \<not> nullish (JObj [(js ''generationtime_ms'', JNum 1)])
   \<and> field (JObj [(js ''generationtime_ms'', JNum 1)]) (js ''results'') = JUndefined
   \<and> requests (fst (fetchWeatherForCity (sample_world (Fulfilled bare_response) (Fulfilled london_forecast))
        (js ''Nonexistentplacexyz''))) = [GeocodingRequest (js ''Nonexistentplacexyz'')]
   \<and> error (run_events (fst (fetchWeatherForCity
        (sample_world (Fulfilled bare_response) (Fulfilled london_forecast))
        (js ''Nonexistentplacexyz''))) initial_state) = Some not_found_message"
proof -
  let ?w = "sample_world (Fulfilled bare_response) (Fulfilled london_forecast)"
  let ?body = "JObj [(js ''generationtime_ms'', JNum 1)]"
  have wf: "well_formed_utf16 (js ''Nonexistentplacexyz'')"
    by (simp add: js_def)
  have geo: "fetch ?w (GeocodingRequest (js ''Nonexistentplacexyz'')) = Fulfilled bare_response"
    by (simp add: sample_world_def)
  have status: "ok bare_response"
    by (simp add: bare_response_def)
  have body: "json bare_response = Fulfilled ?body"
    by (simp add: bare_response_def)
  have obj: "\<not> nullish ?body"
    by (simp add: nullish_def)
  have missing: "field ?body (js ''results'') = JUndefined"
    by (simp add: own_property_def js_def)
  from no_results_reports_not_found [OF wf geo status body obj disjI1 [OF missing], of initial_state]
    wf geo status body obj missing
  show ?thesis
    by blast
qed

text \<open>
  A body that is \<^verbatim>\<open>null\<close> has no \<^verbatim>\<open>results\<close> either, but line 79 cannot read its
  property: the TypeError is caught and its message is the stored error, not the not-found
  message.
\<close>

lemma null_geocoding_body_throws:
  assumes "well_formed_utf16 query" and "fetch w (GeocodingRequest query) = Fulfilled geoRes"
    and "ok geoRes" and "json geoRes = Fulfilled JNull"
  shows "snd (geocoding w query) = Throws (type_error_text w JNull (js ''results''))"
  using assms by (simp add: geocoding_def member_def nullish_def)

lemma null_geocoding_run:
  "fetchWeatherForCity (sample_world (Fulfilled null_response) (Fulfilled london_forecast))
     (js ''Nonexistentplacexyz'')
   = ([SetLoading True, SetError None, SetWeather None,
       Fetch (GeocodingRequest (js ''Nonexistentplacexyz'')),
       SetError (Some (js ''Cannot read properties of null (reading ''
                       @ [0x27] @ js ''results'' @ [0x27] @ js '')'')),
       SetLoading False], True)"
  by (simp add: orchestrator_defs sample_world_def null_response_def nullish_def js_def)

theorem null_geocoding_body_reports_type_error:
  "json null_response = Fulfilled JNull
   \<and> field JNull (js ''results'') = JUndefined
   \<and> error (run_events (fst (fetchWeatherForCity
         (sample_world (Fulfilled null_response) (Fulfilled london_forecast))
         (js ''Nonexistentplacexyz''))) initial_state)
       = Some (js ''Cannot read properties of null (reading ''
               @ [0x27] @ js ''results'' @ [0x27] @ js '')'')
   \<and> error (run_events (fst (fetchWeatherForCity
         (sample_world (Fulfilled null_response) (Fulfilled london_forecast))
         (js ''Nonexistentplacexyz''))) initial_state)
       \<noteq> Some not_found_message
   \<and> \<not> prefix (js ''City not found'')
         (js ''Cannot read properties of null (reading ''
          @ [0x27] @ js ''results'' @ [0x27] @ js '')'')"
proof -
  have "json null_response = Fulfilled JNull"
    by (simp add: null_response_def)
  moreover have "js ''Cannot read properties of null (reading ''
               @ [0x27] @ js ''results'' @ [0x27] @ js '')'' \<noteq> not_found_message"
    by (simp add: js_def not_found_message_def)
  moreover have "\<not> prefix (js ''City not found'')
         (js ''Cannot read properties of null (reading ''
          @ [0x27] @ js ''results'' @ [0x27] @ js '')'')"
    by (simp add: js_def)
  ultimately show ?thesis
    by (simp add: null_geocoding_run run_events_def)
qed

lemma trim_London: "trim (js ''London'') = js ''London''"
  by (simp add: trim_def js_def isWhiteSpace_def)

lemma js_London_nonempty: "js ''London'' \<noteq> []"
  by (simp add: js_def)

lemma london_search:
  "search (sample_world (Fulfilled london_geocoding) (Fulfilled london_forecast)) (js ''London'') s
   = s\<lparr>city := js ''London'',
       weather := Some \<lparr>cityName = js ''London, United Kingdom'', latitude = JNum 51.5,
                         longitude = JNum (- 0.12), current = london_current\<rparr>,
       loading := False, error := None\<rparr>"
  by (simp add: search_def onChange_def handleSubmit_def run_events_def trim_London
      js_London_nonempty london_run)

lemma london_forecast_down_run:
  "fetchWeatherForCity (sample_world (Fulfilled london_geocoding) (Fulfilled failed_response)) (js ''London'')
   = ([SetLoading True, SetError None, SetWeather None,
       Fetch (GeocodingRequest (js ''London'')),
       Fetch (ForecastRequest (JNum 51.5) (JNum (- 0.12))),
       SetError (Some (js ''Weather request failed'')),
       SetLoading False], True)"
  by (simp add: orchestrator_defs sample_world_def london_geocoding_def failed_response_def
      london_candidate_def own_property_def nullish_def js_def)

lemma blank_search:
  "search w (js ''   '') s = s\<lparr>city := js ''   '', error := Some (js ''Please enter a city name.'')\<rparr>"
proof -
  have "trim (js ''   '') = []"
    by (simp add: trim_def js_def isWhiteSpace_def)
  then show ?thesis
    by (simp add: search_def onChange_def handleSubmit_def run_events_def)
qed

text \<open>
  Claim C8, as the code has it. Every failure of \<^verbatim>\<open>fetchWeatherForCity\<close> is wholesale:
  whenever a run leaves an error stored (not found, a transport error at either stage, a
  missing payload, any other thrown error), the stored weather is \<^verbatim>\<open>null\<close>, whatever was
  stored before, so a forecast-stage failure keeps nothing of the geocoding result; a run
  that ends stores either a weather or an error, never both; and the weather and error a
  run leaves do not depend on the state before it, so each search that reaches the
  orchestrator replaces the prior outcome. The validation rejection of \<^verbatim>\<open>handleSubmit\<close>
  is not among these paths.
\<close>

theorem orchestrator_failure_is_wholesale:
  "(error (run_events (fst (fetchWeatherForCity w query)) s) \<noteq> None
      \<longrightarrow> weather (run_events (fst (fetchWeatherForCity w query)) s) = None)
   \<and> (snd (fetchWeatherForCity w query)
      \<longrightarrow> (weather (run_events (fst (fetchWeatherForCity w query)) s) = None)
          \<noteq> (error (run_events (fst (fetchWeatherForCity w query)) s) = None))
   \<and> weather (run_events (fst (fetchWeatherForCity w query)) s)
       = weather (run_events (fst (fetchWeatherForCity w query)) s')
   \<and> error (run_events (fst (fetchWeatherForCity w query)) s)
       = error (run_events (fst (fetchWeatherForCity w query)) s')"
  using failure_clears_weather [of w query s] finished_one_outcome [of w query s]
    outcome_independent_of_prior_state [of w query s s']
  by blast

theorem orchestrator_failure_is_wholesale_witness:
  "error (run_events (fst (fetchWeatherForCity
       (sample_world (Fulfilled london_geocoding) (Fulfilled failed_response)) (js ''London'')))
     (search (sample_world (Fulfilled london_geocoding) (Fulfilled london_forecast)) (js ''London'')
        initial_state)) \<noteq> None
   \<and> snd (fetchWeatherForCity
       (sample_world (Fulfilled london_geocoding) (Fulfilled failed_response)) (js ''London''))
   \<and> weather (search (sample_world (Fulfilled london_geocoding) (Fulfilled london_forecast)) (js ''London'')
        initial_state) \<noteq> None
   \<and> weather (run_events (fst (fetchWeatherForCity
       (sample_world (Fulfilled london_geocoding) (Fulfilled failed_response)) (js ''London'')))
     (search (sample_world (Fulfilled london_geocoding) (Fulfilled london_forecast)) (js ''London'')
        initial_state)) = None"
proof -
  let ?ok = "sample_world (Fulfilled london_geocoding) (Fulfilled london_forecast)"
  let ?down = "sample_world (Fulfilled london_geocoding) (Fulfilled failed_response)"
  let ?prior = "search ?ok (js ''London'') initial_state"
  have failed: "error (run_events (fst (fetchWeatherForCity ?down (js ''London''))) ?prior) \<noteq> None"
    by (simp add: london_forecast_down_run run_events_def)
  have finished: "snd (fetchWeatherForCity ?down (js ''London''))"
    by (simp add: london_forecast_down_run)
  have stored: "weather ?prior \<noteq> None"
    by (simp add: london_search)
  from orchestrator_failure_is_wholesale [of ?down "js ''London''" ?prior ?prior] failed finished
  have cleared: "weather (run_events (fst (fetchWeatherForCity ?down (js ''London''))) ?prior) = None"
    by blast
  from failed finished stored cleared show ?thesis
    by blast
qed

text \<open>
  The validation path does not reset the stored weather: after a successful search for
  London, submitting a blank query stores the validation error and the weather of London
  is still stored.
\<close>

theorem blank_submit_keeps_previous_weather:
  "weather (search (sample_world (Fulfilled london_geocoding) (Fulfilled london_forecast)) (js ''   '')
     (search (sample_world (Fulfilled london_geocoding) (Fulfilled london_forecast)) (js ''London'')
        initial_state))
     = Some \<lparr>cityName = js ''London, United Kingdom'', latitude = JNum 51.5,
             longitude = JNum (- 0.12), current = london_current\<rparr>
   \<and> error (search (sample_world (Fulfilled london_geocoding) (Fulfilled london_forecast)) (js ''   '')
     (search (sample_world (Fulfilled london_geocoding) (Fulfilled london_forecast)) (js ''London'')
        initial_state))
     = Some (js ''Please enter a city name.'')"
  by (simp add: london_search blank_search)

lemma submit_keeps_loading_false:
  "\<not> loading s \<Longrightarrow> snd (handleSubmit w s) \<Longrightarrow> \<not> loading (run_events (fst (handleSubmit w s)) s)"
  using loading_protocol [of w "trim (city s)" s]
  by (auto simp: handleSubmit_def Let_def run_events_def split: prod.splits if_splits)

text \<open>
  Claim C10. Every call of \<^verbatim>\<open>fetchWeatherForCity\<close> first sets \<^verbatim>\<open>loading\<close> to true; it
  comes to its end on every completion of the \<^verbatim>\<open>try\<close> block (success, the not-found
  return, every thrown error), that is, unless an awaited promise stays pending for ever;
  when it ends, its last effect sets \<^verbatim>\<open>loading\<close> to false, and these are its only two
  updates of the flag. Hence a submission that starts with \<^verbatim>\<open>loading\<close> false and runs to
  its end leaves it false.
\<close>

theorem loading_flag_protocol:
  "hd (fst (fetchWeatherForCity w query)) = SetLoading True
   \<and> loading_updates (fst (fetchWeatherForCity w query))
       = (if snd (fetchWeatherForCity w query) then [True, False] else [True])
   \<and> snd (fetchWeatherForCity w query) = (snd (try_block w query) \<noteq> Hangs)
   \<and> (snd (fetchWeatherForCity w query)
       \<longrightarrow> last (fst (fetchWeatherForCity w query)) = SetLoading False
         \<and> \<not> loading (run_events (fst (fetchWeatherForCity w query)) s))
   \<and> (\<not> loading s \<and> snd (handleSubmit w s)
       \<longrightarrow> \<not> loading (run_events (fst (handleSubmit w s)) s))"
  using loading_protocol [of w query s] submit_keeps_loading_false [of s w]
  by blast

theorem loading_flag_protocol_witness:
  "snd (fetchWeatherForCity (sample_world (Fulfilled london_geocoding) (Fulfilled london_forecast))
      (js ''London''))
   \<and> last (fst (fetchWeatherForCity (sample_world (Fulfilled london_geocoding) (Fulfilled london_forecast))
      (js ''London''))) = SetLoading False
   \<and> \<not> loading (run_events (fst (fetchWeatherForCity
        (sample_world (Fulfilled london_geocoding) (Fulfilled london_forecast)) (js ''London'')))
        (initial_state\<lparr>city := js ''London''\<rparr>))
   \<and> \<not> loading (initial_state\<lparr>city := js ''London''\<rparr>)
   \<and> snd (handleSubmit (sample_world (Fulfilled london_geocoding) (Fulfilled london_forecast))
        (initial_state\<lparr>city := js ''London''\<rparr>))
   \<and> \<not> loading (run_events (fst (handleSubmit
        (sample_world (Fulfilled london_geocoding) (Fulfilled london_forecast))
        (initial_state\<lparr>city := js ''London''\<rparr>))) (initial_state\<lparr>city := js ''London''\<rparr>))"
proof -
  let ?w = "sample_world (Fulfilled london_geocoding) (Fulfilled london_forecast)"
  let ?s = "initial_state\<lparr>city := js ''London''\<rparr>"
  have finished: "snd (fetchWeatherForCity ?w (js ''London''))"
    by (simp add: london_run)
  have idle: "\<not> loading ?s"
    by (simp add: initial_state_def)
  have submitted: "snd (handleSubmit ?w ?s)"
    by (simp add: handleSubmit_def trim_London js_London_nonempty london_run)
  from loading_flag_protocol [of ?w "js ''London''" ?s] finished idle submitted show ?thesis
    by blast
qed

text \<open>
  A candidate whose latitude is an object with an own \<^verbatim>\<open>toString\<close> key cannot be put into
  the forecast URL: no forecast request is issued and the conversion error is thrown.
\<close>

lemma unconvertible_latitude_throws:
  assumes "field topResult (js ''latitude'') = JObj ps" and "js ''toString'' \<in> fst ` set ps"
  shows "forecast w topResult = ([], Throws (conversion_error_text w))"
proof -
  from assms(1) have "\<not> nullish topResult"
    by (cases topResult) (simp_all add: nullish_def)
  with assms show ?thesis
    by (simp add: forecast_def Let_def)
qed

lemma success_stores_city_name:
  assumes "forecast w topResult = (evs, Normal ())"
  shows "\<exists>r text cur.
      city_name_text w (field topResult (js ''name'')) (field topResult (js ''admin1''))
        (field topResult (js ''country'')) = Inr text
      \<and> evs = [Fetch r, SetWeather (Some
          \<lparr>cityName = text,
           latitude = field topResult (js ''latitude''),
           longitude = field topResult (js ''longitude''),
           current = cur\<rparr>)]"
  using assms by (auto simp: forecast_def Let_def split: if_splits promise.splits sum.splits)

text \<open>
  Claim C2, as the code has it. For a candidate whose name and country are strings, the
  display string is \<^verbatim>\<open><name>, <admin1>, <country>\<close> when \<^verbatim>\<open>admin1\<close> is a non-empty string,
  and \<^verbatim>\<open><name>, <country>\<close>, without the admin segment and its comma, when \<^verbatim>\<open>admin1\<close> is
  absent (reading it gives \<^verbatim>\<open>undefined\<close>) or is the empty string. For Paris,
  Ile-de-France, France it is \<^verbatim>\<open>Paris, Ile-de-France, France\<close>, and with \<^verbatim>\<open>admin1\<close> absent
  \<^verbatim>\<open>Paris, France\<close>.
\<close>

theorem display_name_composition:
  "(a \<noteq> [] \<longrightarrow>
      city_name_text w (JStr n) (JStr a) (JStr c) = Inr (n @ js '', '' @ a @ js '', '' @ c))
   \<and> city_name_text w (JStr n) JUndefined (JStr c) = Inr (n @ js '', '' @ c)
   \<and> city_name_text w (JStr n) (JStr []) (JStr c) = Inr (n @ js '', '' @ c)
   \<and> (js ''admin1'' \<notin> fst ` set ps \<longrightarrow> field (JObj ps) (js ''admin1'') = JUndefined)
   \<and> city_name_text w (JStr (js ''Paris'')) (JStr (js ''Ile-de-France'')) (JStr (js ''France''))
       = Inr (js ''Paris, Ile-de-France, France'')
   \<and> city_name_text w (JStr (js ''Paris'')) JUndefined (JStr (js ''France''))
       = Inr (js ''Paris, France'')"
proof (intro conjI impI)
  show "city_name_text w (JStr (js ''Paris'')) (JStr (js ''Ile-de-France'')) (JStr (js ''France''))
       = Inr (js ''Paris, Ile-de-France, France'')"
    by (simp add: city_name_text_def js_def)
  show "city_name_text w (JStr (js ''Paris'')) JUndefined (JStr (js ''France''))
       = Inr (js ''Paris, France'')"
    by (simp add: city_name_text_def js_def)
  show "field (JObj ps) (js ''admin1'') = JUndefined" if "js ''admin1'' \<notin> fst ` set ps"
    using that by (rule field_missing)
qed (simp_all add: city_name_text_def)

theorem display_name_composition_witness:
  "js ''Newcastle'' \<noteq> []
   \<and> city_name_text (sample_world Pending Pending) (JStr (js ''Paris'')) (JStr (js ''Newcastle''))
       (JStr (js ''Texas''))
     = Inr (js ''Paris'' @ js '', '' @ js ''Newcastle'' @ js '', '' @ js ''Texas'')
   \<and> js ''admin1'' \<notin> fst ` set [(js ''name'', JStr (js ''Paris'')), (js ''country'', JStr (js ''France''))]
   \<and> field (JObj [(js ''name'', JStr (js ''Paris'')), (js ''country'', JStr (js ''France''))]) (js ''admin1'')
     = JUndefined"
proof -
  have nonempty: "js ''Newcastle'' \<noteq> []"
    by (simp add: js_def)
  have absent: "js ''admin1'' \<notin> fst ` set [(js ''name'', JStr (js ''Paris'')), (js ''country'', JStr (js ''France''))]"
    by (simp add: js_def)
  from display_name_composition
      [where a = "js ''Newcastle''" and w = "sample_world Pending Pending" and n = "js ''Paris''"
        and c = "js ''Texas''"
        and ps = "[(js ''name'', JStr (js ''Paris'')), (js ''country'', JStr (js ''France''))]"]
    nonempty absent
  show ?thesis
    by blast
qed

text \<open>
  A candidate whose \<^verbatim>\<open>admin1\<close> is present as the empty string gets no admin segment:
  the test \<^verbatim>\<open>admin1 ? ... : ""\<close> treats it as absent.
\<close>

theorem empty_admin1_is_omitted:
  "city_name_text (sample_world Pending Pending) (JStr (js ''Paris'')) (JStr []) (JStr (js ''France''))
     = Inr (js ''Paris, France'')
   \<and> city_name_text (sample_world Pending Pending) (JStr (js ''Paris'')) (JStr [])
       (JStr (js ''France''))
     \<noteq> Inr (js ''Paris'' @ js '', '' @ [] @ js '', '' @ js ''France'')"
  by (simp add: city_name_text_def js_def)

end
